theory Spec2Isabelle
  imports Main "HOL-Library.AList" "HOL-Library.Char_ord" "HOL-Library.List_Lexorder"
    "HOL-Library.Multiset"
begin

section \<open>JSON values\<close>

text \<open>
  The values that travel in a request body, in a stored column and in a user object of a
  response. A number is carried by its decimal text (the program never computes with one).
  \<open>JUndefined\<close> is what JavaScript reads from a property that is not there. Arrays occur
  only at the top of a response (\<open>data\<close> of the list operation, \<open>errors\<close>), see
  \<open>field\<close> below; a request body with an array in it is outside this model.
\<close>

datatype json =
    JUndefined
  | JNull
  | JBool bool
  | JNum string
  | JStr string
  | JObj "(string \<times> json) list"

text \<open>Reading a property without raising (\<open>_.get\<close> of the validation library, one level).\<close>

fun get_prop :: "string \<Rightarrow> json \<Rightarrow> json" where
  "get_prop k (JObj kvs) = (case map_of kvs k of Some v \<Rightarrow> v | None \<Rightarrow> JUndefined)"
| "get_prop k _ = JUndefined"

fun get_path :: "string list \<Rightarrow> json \<Rightarrow> json" where
  "get_path [] j = j"
| "get_path (k # ks) j = get_path ks (get_prop k j)"

text \<open>
  Writing a sanitized value back into the request body (\<open>_.set\<close>): the last key is
  assigned, and a step of the path that is not an object is replaced by a fresh one.
\<close>

fun set_path :: "string list \<Rightarrow> json \<Rightarrow> json \<Rightarrow> json" where
  "set_path [] v j = j"
| "set_path [k] v (JObj kvs) = JObj (AList.update k v kvs)"
| "set_path (k # ks) v (JObj kvs) =
     JObj (AList.update k
       (set_path ks v (case map_of kvs k of Some (JObj sub) \<Rightarrow> JObj sub | _ \<Rightarrow> JObj [])) kvs)"
| "set_path (k # ks) v j = j"

text \<open>
  The member access \<open>obj.k\<close> of the handlers: a TypeError on \<open>undefined\<close> and
  \<open>null\<close>, the property (or \<open>undefined\<close>) otherwise.
\<close>

definition member_of :: "string \<Rightarrow> json \<Rightarrow> string + json" where
  "member_of k j =
     (case j of
        JUndefined \<Rightarrow> Inl (''Cannot read properties of undefined (reading '' @ k @ '')'')
      | JNull \<Rightarrow> Inl (''Cannot read properties of null (reading '' @ k @ '')'')
      | _ \<Rightarrow> Inr (get_prop k j))"

section \<open>Strings\<close>

definition is_space :: "char \<Rightarrow> bool" where
  "is_space c = (c \<in> set [CHR '' '', CHR 0x09, CHR 0x0A, CHR 0x0B, CHR 0x0C, CHR 0x0D])"

definition is_digit :: "char \<Rightarrow> bool" where
  "is_digit c = (c \<in> set ''0123456789'')"

text \<open>
  \<open>trim()\<close>: white space removed at both ends. A string is a list of 8-bit
  characters here, and white space is the blank, the tab, the line feed, the vertical tab,
  the form feed and the carriage return.
\<close>

definition trim :: "string \<Rightarrow> string" where
  "trim s = rev (dropWhile is_space (rev (dropWhile is_space s)))"

text \<open>\<open>String.prototype.includes\<close>.\<close>

fun includes_str :: "string \<Rightarrow> string \<Rightarrow> bool" where
  "includes_str [] sub = (sub = [])"
| "includes_str (c # cs) sub = (take (length sub) (c # cs) = sub \<or> includes_str cs sub)"

text \<open>The decimal text of a row id, and the reading of a decimal text as a row id.\<close>

fun show_nat :: "nat \<Rightarrow> string" where
  "show_nat n =
     (if n < 10 then [''0123456789'' ! n]
      else show_nat (n div 10) @ [''0123456789'' ! (n mod 10)])"

declare show_nat.simps [simp del]

definition digit_val :: "char \<Rightarrow> nat" where
  "digit_val c = of_char c - 48"

definition rowid_of_text :: "string \<Rightarrow> nat option" where
  "rowid_of_text s =
     (if s \<noteq> [] \<and> list_all is_digit s
      then Some (foldl (\<lambda>a c. 10 * a + digit_val c) 0 s) else None)"

section \<open>Validator\<close>

text \<open>
  The validation library turns the value of a field into a string before a check or a
  sanitizer sees it: nothing for a missing or null field.
\<close>

fun toString :: "json \<Rightarrow> string" where
  "toString JUndefined = []"
| "toString JNull = []"
| "toString (JBool b) = (if b then ''true'' else ''false'')"
| "toString (JNum s) = s"
| "toString (JStr s) = s"
| "toString (JObj kvs) = ''[object Object]''"

text \<open>
  \<open>isFloat()\<close>: an optional sign, digits, an optional fraction, an optional exponent,
  and not one of the texts the library rules out first.
\<close>

definition opt_sign :: "string \<Rightarrow> string" where
  "opt_sign s =
     (case s of [] \<Rightarrow> [] | c # cs \<Rightarrow> if c = CHR ''-'' \<or> c = CHR ''+'' then cs else s)"

definition float_pattern :: "string \<Rightarrow> bool" where
  "float_pattern s =
     (let s1 = dropWhile is_digit (opt_sign s);
          s2 = (case s1 of [] \<Rightarrow> []
                | c # cs \<Rightarrow> if c = CHR ''.'' then dropWhile is_digit cs else s1)
      in case s2 of
           [] \<Rightarrow> True
         | c # cs \<Rightarrow> (c = CHR ''e'' \<or> c = CHR ''E'')
                     \<and> opt_sign cs \<noteq> [] \<and> list_all is_digit (opt_sign cs))"

definition isFloat :: "string \<Rightarrow> bool" where
  "isFloat s = (s \<notin> set [[], ''.'', '','', ''-'', ''+''] \<and> float_pattern s)"

text \<open>
  \<open>isEmail()\<close> and \<open>normalizeEmail()\<close> belong to the validation library, not to this
  program: they are parameters of the model.
\<close>

record validator_lib =
  isEmail :: "string \<Rightarrow> bool"
  normalizeEmail :: "string \<Rightarrow> string"

datatype rule = TrimLength | Email | Float

text \<open>The nine chains of \<open>validateUser\<close>: field path, checks, message.\<close>

definition validateUser :: "(string list \<times> rule \<times> string) list" where
  "validateUser =
     [([''name''], TrimLength, ''Name is required''),
      ([''email''], Email, ''Valid email is required''),
      ([''phone''], TrimLength, ''Phone is required''),
      ([''company''], TrimLength, ''Company is required''),
      ([''address'', ''street''], TrimLength, ''Street address is required''),
      ([''address'', ''city''], TrimLength, ''City is required''),
      ([''address'', ''zip''], TrimLength, ''Zip code is required''),
      ([''address'', ''geo'', ''lat''], Float, ''Valid latitude is required''),
      ([''address'', ''geo'', ''lng''], Float, ''Valid longitude is required'')]"

text \<open>
  One chain run on the request: it reads its field, records a failure (field path and
  message) when the check fails, and writes the sanitized value back into the body.
  \<^item> \<open>trim().isLength({ min: 1 })\<close>: the trimmed text is stored, and must not be empty;
  \<^item> \<open>isEmail().normalizeEmail()\<close>: the text must be an email, its normal form is stored;
  \<^item> \<open>isFloat()\<close>: a check only, the body keeps the value as it came.
\<close>

fun run_chain ::
  "validator_lib \<Rightarrow> string list \<times> rule \<times> string \<Rightarrow>
   (string list \<times> string) list \<times> json \<Rightarrow> (string list \<times> string) list \<times> json" where
  "run_chain lib (p, TrimLength, m) (errs, b) =
     (let s = trim (toString (get_path p b))
      in (errs @ (if 1 \<le> length s then [] else [(p, m)]), set_path p (JStr s) b))"
| "run_chain lib (p, Email, m) (errs, b) =
     (let s = toString (get_path p b)
      in (errs @ (if isEmail lib s then [] else [(p, m)]),
          set_path p (JStr (normalizeEmail lib s)) b))"
| "run_chain lib (p, Float, m) (errs, b) =
     (errs @ (if isFloat (toString (get_path p b)) then [] else [(p, m)]), b)"

text \<open>
  The chains run in order; the result is \<open>validationResult(req)\<close> and the request body
  the handler will read.
\<close>

definition run_validation ::
  "validator_lib \<Rightarrow> json \<Rightarrow> (string list \<times> string) list \<times> json" where
  "run_validation lib b = foldl (\<lambda>acc c. run_chain lib c acc) ([], b) validateUser"

definition handler_body_of :: "validator_lib \<Rightarrow> json \<Rightarrow> json" where
  "handler_body_of lib b = snd (run_validation lib b)"

definition validation_errors :: "validator_lib \<Rightarrow> json \<Rightarrow> (string list \<times> string) list" where
  "validation_errors lib b = fst (run_validation lib b)"

section \<open>Storage\<close>

text \<open>
  The table \<open>users\<close> of the \<open>CREATE TABLE\<close> statement, its rows in rowid order, and
  the AUTOINCREMENT counter (the largest id given out so far). A column holds the value
  that was bound to it; the conversions of the engine's column affinity (a latitude sent
  as the text "40.7" is stored as the number 40.7) are not modelled. Row ids are natural
  numbers without the engine's upper limit. \<open>created_at\<close> and \<open>updated_at\<close> hold the
  text of \<open>CURRENT_TIMESTAMP\<close>, which has a resolution of one second.
\<close>

record user_row =
  user_id :: nat
  name :: json
  email :: json
  phone :: json
  company :: json
  address_street :: json
  address_city :: json
  address_zip :: json
  geo_lat :: json
  geo_lng :: json
  created_at :: string
  updated_at :: string

record db =
  users :: "user_row list"
  sqlite_sequence :: nat

text \<open>
  Every statement takes what the engine does beside the statement's own meaning: \<open>None\<close>
  when it runs normally, \<open>Some m\<close> when it fails with the message \<open>m\<close> for a reason
  of its own (a locked file, a full disk). A result is \<open>Inl\<close> the message of the error
  handed to the callback, or \<open>Inr\<close> what the callback reads.
\<close>

definition is_null :: "json \<Rightarrow> bool" where
  "is_null v = (v = JUndefined \<or> v = JNull)"

definition not_null_columns :: "string list" where
  "not_null_columns =
     [''name'', ''email'', ''phone'', ''company'', ''address_street'', ''address_city'',
      ''address_zip'', ''geo_lat'', ''geo_lng'']"

definition first_null :: "json list \<Rightarrow> string option" where
  "first_null ps = map_option fst (find (\<lambda>cv. is_null (snd cv)) (zip not_null_columns ps))"

definition bind_row :: "nat \<Rightarrow> string \<Rightarrow> json list \<Rightarrow> user_row option" where
  "bind_row i now ps =
     (case ps of
        [n, e, p, c, s, ci, z, la, ln] \<Rightarrow>
          Some \<lparr>user_id = i, name = n, email = e, phone = p, company = c,
                address_street = s, address_city = ci, address_zip = z,
                geo_lat = la, geo_lng = ln, created_at = now, updated_at = now\<rparr>
      | _ \<Rightarrow> None)"

definition next_rowid :: "db \<Rightarrow> nat" where
  "next_rowid st = foldr max (map user_id (users st)) (sqlite_sequence st) + 1"

text \<open>
  \<open>INSERT INTO users (name, ..., geo_lng) VALUES (?, ..., ?)\<close>: the NOT NULL columns are
  checked, then the UNIQUE email; the new row gets the next id and the current time.
  The result is \<open>this.lastID\<close>.
\<close>

definition run_insert ::
  "string option \<Rightarrow> string \<Rightarrow> json list \<Rightarrow> db \<Rightarrow> (string + nat) \<times> db" where
  "run_insert flt now ps st =
     (case flt of
        Some m \<Rightarrow> (Inl m, st)
      | None \<Rightarrow>
         (case bind_row (next_rowid st) now ps of
            None \<Rightarrow> (Inl ''SQLITE_RANGE: column index out of range'', st)
          | Some r \<Rightarrow>
             (case first_null ps of
                Some c \<Rightarrow> (Inl (''SQLITE_CONSTRAINT: NOT NULL constraint failed: users.'' @ c), st)
              | None \<Rightarrow>
                 if list_ex (\<lambda>x. email x = email r) (users st)
                 then (Inl ''SQLITE_CONSTRAINT: UNIQUE constraint failed: users.email'', st)
                 else (Inr (user_id r),
                       st\<lparr>users := users st @ [r], sqlite_sequence := user_id r\<rparr>))))"

text \<open>
  \<open>WHERE id = ?\<close> with the text of the path parameter bound: the engine compares the
  integer column with the integer the text denotes, and with nothing when it denotes
  none. The model reads plain decimal digits; the engine's other spellings of an integer
  (blanks around it, a sign, a zero fraction, an exponent) are not modelled.
\<close>

definition key_matches :: "json \<Rightarrow> user_row \<Rightarrow> bool" where
  "key_matches k r = (case k of JStr s \<Rightarrow> rowid_of_text s = Some (user_id r) | _ \<Rightarrow> False)"

text \<open>
  \<open>UPDATE users SET name = ?, ..., geo_lng = ?, updated_at = CURRENT_TIMESTAMP WHERE id = ?\<close>.
  The result is \<open>this.changes\<close>.
\<close>

definition run_update ::
  "string option \<Rightarrow> string \<Rightarrow> json list \<Rightarrow> db \<Rightarrow> (string + nat) \<times> db" where
  "run_update flt now ps st =
     (case flt of
        Some m \<Rightarrow> (Inl m, st)
      | None \<Rightarrow>
         (case ps of
            [n, e, p, c, s, ci, z, la, ln, k] \<Rightarrow>
              (case find (key_matches k) (users st) of
                 None \<Rightarrow> (Inr 0, st)
               | Some r \<Rightarrow>
                  (case first_null ps of
                     Some col \<Rightarrow>
                       (Inl (''SQLITE_CONSTRAINT: NOT NULL constraint failed: users.'' @ col), st)
                   | None \<Rightarrow>
                      if list_ex (\<lambda>x. user_id x \<noteq> user_id r \<and> email x = e) (users st)
                      then (Inl ''SQLITE_CONSTRAINT: UNIQUE constraint failed: users.email'', st)
                      else (Inr 1,
                            st\<lparr>users :=
                              map (\<lambda>x. if user_id x = user_id r
                                        then x\<lparr>name := n, email := e, phone := p, company := c,
                                               address_street := s, address_city := ci,
                                               address_zip := z, geo_lat := la, geo_lng := ln,
                                               updated_at := now\<rparr>
                                        else x) (users st)\<rparr>)))
          | _ \<Rightarrow> (Inl ''SQLITE_RANGE: column index out of range'', st)))"

text \<open>\<open>DELETE FROM users WHERE id = ?\<close>. The result is \<open>this.changes\<close>.\<close>

definition run_delete :: "string option \<Rightarrow> json list \<Rightarrow> db \<Rightarrow> (string + nat) \<times> db" where
  "run_delete flt ps st =
     (case flt of
        Some m \<Rightarrow> (Inl m, st)
      | None \<Rightarrow>
         (case ps of
            [k] \<Rightarrow>
              (Inr (length (filter (key_matches k) (users st))),
               st\<lparr>users := filter (\<lambda>r. \<not> key_matches k r) (users st)\<rparr>)
          | _ \<Rightarrow> (Inl ''SQLITE_RANGE: column index out of range'', st)))"

text \<open>
  \<open>ORDER BY created_at DESC\<close>: the rows with the later time first. The texts are
  compared as texts. SQL leaves the order of rows with the same \<open>created_at\<close> open; the
  engine's sorter keeps them in the order it read them, the rowid order, and so does
  this insertion from the right.
\<close>

fun insert_desc :: "user_row \<Rightarrow> user_row list \<Rightarrow> user_row list" where
  "insert_desc r [] = [r]"
| "insert_desc r (x # xs) =
     (if created_at r < created_at x then x # insert_desc r xs else r # x # xs)"

definition order_by_created_at_desc :: "user_row list \<Rightarrow> user_row list" where
  "order_by_created_at_desc rs = foldr insert_desc rs []"

text \<open>\<open>SELECT ... FROM users ORDER BY created_at DESC\<close> through \<open>db.all\<close>.\<close>

definition select_all :: "string option \<Rightarrow> db \<Rightarrow> string + user_row list" where
  "select_all flt st =
     (case flt of Some m \<Rightarrow> Inl m | None \<Rightarrow> Inr (order_by_created_at_desc (users st)))"

text \<open>\<open>SELECT ... FROM users WHERE id = ?\<close> through \<open>db.get\<close>: the first row, if any.\<close>

definition select_by_id :: "string option \<Rightarrow> json list \<Rightarrow> db \<Rightarrow> string + user_row option" where
  "select_by_id flt ps st =
     (case flt of
        Some m \<Rightarrow> Inl m
      | None \<Rightarrow>
         (case ps of
            [k] \<Rightarrow> Inr (find (key_matches k) (users st))
          | _ \<Rightarrow> Inl ''SQLITE_RANGE: column index out of range''))"

section \<open>Responses\<close>

text \<open>
  \<open>res.status(n).json({...})\<close>: the status and the keys of the object sent, in the
  order written. A value is a JSON value or, for \<open>data\<close> of the list and for
  \<open>errors\<close>, an array of them. \<open>res.json\<close> alone sends status 200.
\<close>

datatype field = Val json | Items "json list"

record response =
  status :: nat
  json_body :: "(string \<times> field) list"

section \<open>Record mapper\<close>

text \<open>
  The object built from a row in \<open>GET /api/users\<close> and, with the same text, in
  \<open>GET /api/users/:id\<close>: the three address columns and the two geo columns go back
  under \<open>address\<close> and \<open>address.geo\<close>.
\<close>

definition expand :: "user_row \<Rightarrow> json" where
  "expand row =
     JObj [(''id'', JNum (show_nat (user_id row))),
           (''name'', name row),
           (''email'', email row),
           (''phone'', phone row),
           (''company'', company row),
           (''address'',
              JObj [(''street'', address_street row),
                    (''city'', address_city row),
                    (''zip'', address_zip row),
                    (''geo'', JObj [(''lat'', geo_lat row), (''lng'', geo_lng row)])]),
           (''created_at'', JStr (created_at row)),
           (''updated_at'', JStr (updated_at row))]"

definition and_then :: "string + 'a \<Rightarrow> ('a \<Rightarrow> string + 'b) \<Rightarrow> string + 'b" where
  "and_then r f = (case r of Inl e \<Rightarrow> Inl e | Inr x \<Rightarrow> f x)"

text \<open>
  \<open>const { name, email, phone, company, address } = req.body\<close> and the array
  \<open>params\<close> of \<open>POST /api/users\<close>, its elements evaluated from the left: \<open>Inl\<close> the
  message of the TypeError that a member access raises.
\<close>

definition flatten :: "json \<Rightarrow> string + json list" where
  "flatten b =
     and_then (member_of ''name'' b) (\<lambda>n.
     and_then (member_of ''email'' b) (\<lambda>e.
     and_then (member_of ''phone'' b) (\<lambda>p.
     and_then (member_of ''company'' b) (\<lambda>c.
     and_then (member_of ''address'' b) (\<lambda>a.
     and_then (member_of ''street'' a) (\<lambda>s.
     and_then (member_of ''city'' a) (\<lambda>ci.
     and_then (member_of ''zip'' a) (\<lambda>z.
     and_then (and_then (member_of ''geo'' a) (member_of ''lat'')) (\<lambda>la.
     and_then (and_then (member_of ''geo'' a) (member_of ''lng'')) (\<lambda>ln.
       Inr [n, e, p, c, s, ci, z, la, ln]))))))))))"

section \<open>Request handlers\<close>

text \<open>
  What a request meets outside itself: the operating mode \<open>process.env.NODE_ENV\<close>, the
  text of \<open>CURRENT_TIMESTAMP\<close> when its statement runs, the text of
  \<open>new Date().toISOString()\<close>, and the failure of the storage engine, if any.
\<close>

record env =
  node_env :: "string option"
  current_timestamp :: string
  date_iso :: string
  fault :: "string option"

definition failure :: "nat \<Rightarrow> string \<Rightarrow> response" where
  "failure code m =
     \<lparr>status = code, json_body = [(''success'', Val (JBool False)), (''message'', Val (JStr m))]\<rparr>"

definition failure_with_error :: "string \<Rightarrow> string \<Rightarrow> response" where
  "failure_with_error m detail =
     \<lparr>status = 500,
      json_body = [(''success'', Val (JBool False)), (''message'', Val (JStr m)),
                   (''error'', Val (JStr detail))]\<rparr>"

text \<open>The error-handling middleware, which Express calls with what a handler throws.\<close>

definition error_middleware :: "string option \<Rightarrow> string \<Rightarrow> response" where
  "error_middleware mode m =
     failure_with_error ''Internal server error''
       (if mode = Some ''development'' then m else ''Something went wrong'')"

text \<open>\<open>GET /api/users\<close>: the callback of \<open>db.all\<close>, and the handler.\<close>

definition get_users_callback :: "string + user_row list \<Rightarrow> response" where
  "get_users_callback r =
     (case r of
        Inl m \<Rightarrow> failure_with_error ''Failed to fetch users'' m
      | Inr rows \<Rightarrow>
         \<lparr>status = 200,
          json_body = [(''success'', Val (JBool True)), (''data'', Items (map expand rows))]\<rparr>)"

definition get_users :: "env \<Rightarrow> db \<Rightarrow> response" where
  "get_users e st = get_users_callback (select_all (fault e) st)"

text \<open>\<open>GET /api/users/:id\<close>.\<close>

definition get_user_callback :: "string + user_row option \<Rightarrow> response" where
  "get_user_callback r =
     (case r of
        Inl m \<Rightarrow> failure_with_error ''Failed to fetch user'' m
      | Inr None \<Rightarrow> failure 404 ''User not found''
      | Inr (Some row) \<Rightarrow>
         \<lparr>status = 200,
          json_body = [(''success'', Val (JBool True)), (''data'', Val (expand row))]\<rparr>)"

definition get_user :: "env \<Rightarrow> string \<Rightarrow> db \<Rightarrow> response" where
  "get_user e i st = get_user_callback (select_by_id (fault e) [JStr i] st)"

text \<open>
  \<open>handleValidationErrors\<close>: the response it sends, or \<open>None\<close> when it calls
  \<open>next()\<close>. An entry of \<open>errors.array()\<close> is shown with its field path and its
  message (the library adds the offending value and the location).
\<close>

fun path_text :: "string list \<Rightarrow> string" where
  "path_text [] = []"
| "path_text [k] = k"
| "path_text (k # ks) = k @ ''.'' @ path_text ks"

definition error_entry :: "string list \<times> string \<Rightarrow> json" where
  "error_entry pm = JObj [(''msg'', JStr (snd pm)), (''path'', JStr (path_text (fst pm)))]"

definition handleValidationErrors :: "(string list \<times> string) list \<Rightarrow> response option" where
  "handleValidationErrors errs =
     (if errs \<noteq> []
      then Some \<lparr>status = 400,
                 json_body = [(''success'', Val (JBool False)),
                              (''message'', Val (JStr ''Validation failed'')),
                              (''errors'', Items (map error_entry errs))]\<rparr>
      else None)"

text \<open>\<open>POST /api/users\<close>: the callback of \<open>db.run\<close>, and the route with its middleware.\<close>

definition create_callback :: "string + nat \<Rightarrow> response" where
  "create_callback r =
     (case r of
        Inl m \<Rightarrow>
          if includes_str m ''UNIQUE constraint failed''
          then failure 400 ''Email already exists''
          else failure_with_error ''Failed to create user'' m
      | Inr lastID \<Rightarrow>
         \<lparr>status = 201,
          json_body = [(''success'', Val (JBool True)),
                       (''message'', Val (JStr ''User created successfully'')),
                       (''data'', Val (JObj [(''id'', JNum (show_nat lastID))]))]\<rparr>)"

definition create_user :: "env \<Rightarrow> validator_lib \<Rightarrow> json \<Rightarrow> db \<Rightarrow> response \<times> db" where
  "create_user e lib b st =
     (case handleValidationErrors (validation_errors lib b) of
        Some r \<Rightarrow> (r, st)
      | None \<Rightarrow>
         (case flatten (handler_body_of lib b) of
            Inl m \<Rightarrow> (error_middleware (node_env e) m, st)
          | Inr params \<Rightarrow>
             (case run_insert (fault e) (current_timestamp e) params st of
                (r, st') \<Rightarrow> (create_callback r, st'))))"

text \<open>\<open>PUT /api/users/:id\<close>: the same parameters, and the id after them.\<close>

definition update_callback :: "string + nat \<Rightarrow> response" where
  "update_callback r =
     (case r of
        Inl m \<Rightarrow>
          if includes_str m ''UNIQUE constraint failed''
          then failure 400 ''Email already exists''
          else failure_with_error ''Failed to update user'' m
      | Inr changes \<Rightarrow>
          if changes = 0 then failure 404 ''User not found''
          else \<lparr>status = 200,
                json_body = [(''success'', Val (JBool True)),
                             (''message'', Val (JStr ''User updated successfully''))]\<rparr>)"

definition update_user ::
  "env \<Rightarrow> validator_lib \<Rightarrow> string \<Rightarrow> json \<Rightarrow> db \<Rightarrow> response \<times> db" where
  "update_user e lib i b st =
     (case handleValidationErrors (validation_errors lib b) of
        Some r \<Rightarrow> (r, st)
      | None \<Rightarrow>
         (case flatten (handler_body_of lib b) of
            Inl m \<Rightarrow> (error_middleware (node_env e) m, st)
          | Inr params \<Rightarrow>
             (case run_update (fault e) (current_timestamp e) (params @ [JStr i]) st of
                (r, st') \<Rightarrow> (update_callback r, st'))))"

text \<open>\<open>DELETE /api/users/:id\<close>.\<close>

definition delete_callback :: "string + nat \<Rightarrow> response" where
  "delete_callback r =
     (case r of
        Inl m \<Rightarrow> failure_with_error ''Failed to delete user'' m
      | Inr changes \<Rightarrow>
          if changes = 0 then failure 404 ''User not found''
          else \<lparr>status = 200,
                json_body = [(''success'', Val (JBool True)),
                             (''message'', Val (JStr ''User deleted successfully''))]\<rparr>)"

definition delete_user :: "env \<Rightarrow> string \<Rightarrow> db \<Rightarrow> response \<times> db" where
  "delete_user e i st =
     (case run_delete (fault e) [JStr i] st of (r, st') \<Rightarrow> (delete_callback r, st'))"

text \<open>\<open>GET /api/health\<close> and the handler of the routes that match nothing.\<close>

definition health :: "env \<Rightarrow> response" where
  "health e =
     \<lparr>status = 200,
      json_body = [(''success'', Val (JBool True)),
                   (''message'', Val (JStr ''Server is running'')),
                   (''timestamp'', Val (JStr (date_iso e)))]\<rparr>"

definition route_not_found :: response where
  "route_not_found = failure 404 ''Route not found''"

text \<open>
  The requests, by the route they reach. \<open>Rejected m\<close> is a request that a middleware
  before the routes refuses with an error of message \<open>m\<close> (a body that is not JSON):
  Express hands it to the error-handling middleware.
\<close>

datatype request =
    ListUsers
  | GetUser string
  | CreateUser json
  | UpdateUser string json
  | DeleteUser string
  | Health
  | Unmatched
  | Rejected string

fun handle :: "env \<Rightarrow> validator_lib \<Rightarrow> request \<Rightarrow> db \<Rightarrow> response \<times> db" where
  "handle e lib ListUsers st = (get_users e st, st)"
| "handle e lib (GetUser i) st = (get_user e i st, st)"
| "handle e lib (CreateUser b) st = create_user e lib b st"
| "handle e lib (UpdateUser i b) st = update_user e lib i b st"
| "handle e lib (DeleteUser i) st = delete_user e i st"
| "handle e lib Health st = (health e, st)"
| "handle e lib Unmatched st = (route_not_found, st)"
| "handle e lib (Rejected m) st = (error_middleware (node_env e) m, st)"

section \<open>Notions used in the statements\<close>

text \<open>The nine fields of a user payload, as paths into the body.\<close>

definition user_paths :: "string list list" where
  "user_paths = map fst validateUser"


text \<open>Two paths that part at some key: neither leads through the other.\<close>

fun diverge :: "string list \<Rightarrow> string list \<Rightarrow> bool" where
  "diverge (a # as) (b # bs) = (a \<noteq> b \<or> diverge as bs)"
| "diverge _ _ = False"

fun is_object :: "json \<Rightarrow> bool" where
  "is_object (JObj kvs) = True"
| "is_object _ = False"

text \<open>The keys of a response, and the array under a key.\<close>

definition keys_of :: "response \<Rightarrow> string list" where
  "keys_of r = map fst (json_body r)"


text \<open>
  The shape every response but that of the health check has: a boolean \<open>success\<close>;
  beside it only \<open>message\<close>, \<open>data\<close>, \<open>errors\<close> and \<open>error\<close>; no
  \<open>data\<close> when \<open>success\<close> is false; \<open>error\<close> with status 500 only.
\<close>

definition envelope_ok :: "response \<Rightarrow> bool" where
  "envelope_ok r =
     (set (keys_of r) \<subseteq> {''success'', ''message'', ''data'', ''errors'', ''error''}
      \<and> (\<exists>ok. map_of (json_body r) ''success'' = Some (Val (JBool ok)))
      \<and> (map_of (json_body r) ''success'' = Some (Val (JBool False))
           \<longrightarrow> ''data'' \<notin> set (keys_of r))
      \<and> (''error'' \<in> set (keys_of r) \<longrightarrow> status r = 500))"


section \<open>Sample data\<close>

text \<open>
  Inputs for the examples below: a stand-in for the validation library (an email is a
  text with an at sign, and is its own normal form), a complete user payload with a given
  name and email, a production environment at a given time with a working storage engine,
  and the empty table.
\<close>

definition sample_lib :: validator_lib where
  "sample_lib = \<lparr>isEmail = (\<lambda>s. includes_str s ''@''), normalizeEmail = id\<rparr>"

definition user_body :: "string \<Rightarrow> string \<Rightarrow> json" where
  "user_body n m =
     JObj [(''name'', JStr n), (''email'', JStr m), (''phone'', JStr ''555-0100''),
           (''company'', JStr ''Acme''),
           (''address'',
              JObj [(''street'', JStr ''1 Main St''), (''city'', JStr ''Oslo''),
                    (''zip'', JStr ''0150''),
                    (''geo'', JObj [(''lat'', JNum ''59.9''), (''lng'', JNum ''10.7'')])])]"

definition at_time :: "string \<Rightarrow> env" where
  "at_time t =
     \<lparr>node_env = Some ''production'', current_timestamp = t,
      date_iso = ''2024-01-01T10:00:00.000Z'', fault = None\<rparr>"

definition empty_db :: db where
  "empty_db = \<lparr>users = [], sqlite_sequence = 0\<rparr>"

section \<open>Paths: reading after writing\<close>

lemma get_path_JUndefined [simp]: "get_path ks JUndefined = JUndefined"
  by (induction ks) auto

lemma get_path_empty_object [simp]: "ks \<noteq> [] \<Longrightarrow> get_path ks (JObj []) = JUndefined"
  by (cases ks) auto

lemma get_path_non_object:
  "ks \<noteq> [] \<Longrightarrow> (\<And>kvs. j \<noteq> JObj kvs) \<Longrightarrow> get_path ks j = JUndefined"
proof (induction ks arbitrary: j)
  case Nil
  then show ?case by simp
next
  case (Cons k ks)
  have "get_prop k j = JUndefined"
    using Cons.prems(2) by (cases j) auto
  then show ?case by simp
qed

lemma get_prop_defined: "get_prop k j \<noteq> JUndefined \<Longrightarrow> \<exists>kvs. j = JObj kvs"
  by (cases j) auto

lemma is_object_set_path [simp]: "is_object (set_path ks v j) = is_object j"
  by (cases "(ks, v, j)" rule: set_path.cases) auto



lemma get_set_other: "diverge p q \<Longrightarrow> get_path p (set_path q v j) = get_path p j"
proof (induction q arbitrary: p j)
  case Nil
  then show ?case by simp
next
  case (Cons b bs)
  then obtain a as where p: "p = a # as"
    by (cases p) auto
  show ?case
  proof (cases j)
    case (JObj kvs)
    show ?thesis
    proof (cases "a = b")
      case False
      then show ?thesis
        using p JObj by (cases bs) (auto simp: update_conv')
    next
      case True
      then have d: "diverge as bs"
        using Cons.prems p by simp
      then obtain b' bs' where bs: "bs = b' # bs'"
        by (cases bs; cases as) auto
      from d have asne: "as \<noteq> []"
        by (cases as) auto
      let ?child = "(case map_of kvs b of Some (JObj s) \<Rightarrow> JObj s | _ \<Rightarrow> JObj [])"
      have "get_path as (set_path bs v ?child) = get_path as ?child"
        using Cons.IH[OF d] by simp
      moreover have "get_path as ?child = get_path as (get_prop b (JObj kvs))"
        using asne by (auto split: option.splits json.splits simp: get_path_non_object)
      ultimately show ?thesis
        using p JObj True bs by (simp add: update_conv')
    qed
  qed (use p in \<open>cases bs; simp\<close>)+
qed

section \<open>What validation reads and what it leaves in the body\<close>

lemma user_paths_eq:
  "user_paths = [[''name''], [''email''], [''phone''], [''company''],
     [''address'', ''street''], [''address'', ''city''], [''address'', ''zip''],
     [''address'', ''geo'', ''lat''], [''address'', ''geo'', ''lng'']]"
  by (simp add: user_paths_def validateUser_def)

text \<open>Every chain reads its field as the request sent it: no chain writes into another's.\<close>

lemma validation_errors_eq:
  "validation_errors lib b =
     (if 1 \<le> length (trim (toString (get_path [''name''] b))) then []
      else [([''name''], ''Name is required'')]) @
     (if isEmail lib (toString (get_path [''email''] b)) then []
      else [([''email''], ''Valid email is required'')]) @
     (if 1 \<le> length (trim (toString (get_path [''phone''] b))) then []
      else [([''phone''], ''Phone is required'')]) @
     (if 1 \<le> length (trim (toString (get_path [''company''] b))) then []
      else [([''company''], ''Company is required'')]) @
     (if 1 \<le> length (trim (toString (get_path [''address'', ''street''] b))) then []
      else [([''address'', ''street''], ''Street address is required'')]) @
     (if 1 \<le> length (trim (toString (get_path [''address'', ''city''] b))) then []
      else [([''address'', ''city''], ''City is required'')]) @
     (if 1 \<le> length (trim (toString (get_path [''address'', ''zip''] b))) then []
      else [([''address'', ''zip''], ''Zip code is required'')]) @
     (if isFloat (toString (get_path [''address'', ''geo'', ''lat''] b)) then []
      else [([''address'', ''geo'', ''lat''], ''Valid latitude is required'')]) @
     (if isFloat (toString (get_path [''address'', ''geo'', ''lng''] b)) then []
      else [([''address'', ''geo'', ''lng''], ''Valid longitude is required'')])"
  unfolding validation_errors_def run_validation_def validateUser_def
  by (simp add: Let_def get_set_other del: get_path.simps set_path.simps)



lemma trim_empty [simp]: "trim [] = []"
  by (simp add: trim_def)

lemma isFloat_empty [simp]: "\<not> isFloat []"
  by (simp add: isFloat_def)


section \<open>The parameters of the statement\<close>

lemma member_of_object: "member_of k (JObj kvs) = Inr (get_prop k (JObj kvs))"
  by (simp add: member_of_def)

text \<open>
  No member access of \<open>flatten\<close> raises once name, street and latitude are there, and
  then the parameters are the values under the nine paths.
\<close>

lemma flatten_paths:
  assumes "get_path [''name''] b \<noteq> JUndefined"
    and "get_path [''address'', ''street''] b \<noteq> JUndefined"
    and "get_path [''address'', ''geo'', ''lat''] b \<noteq> JUndefined"
  shows "flatten b = Inr (map (\<lambda>p. get_path p b) user_paths)"
proof -
  obtain kvs where b: "b = JObj kvs"
    using assms(1) get_prop_defined[of "''name''" b] by auto
  obtain a where a: "get_prop ''address'' b = JObj a"
    using assms(2) get_prop_defined[of "''street''" "get_prop ''address'' b"] by auto
  obtain g where g: "get_prop ''geo'' (JObj a) = JObj g"
    using assms(3) a get_prop_defined[of "''lat''" "get_prop ''geo'' (JObj a)"] by auto
  show ?thesis
    unfolding flatten_def user_paths_eq b
    using a g unfolding b
    by (simp add: member_of_object and_then_def del: get_prop.simps)
qed


section \<open>Create\<close>








section \<open>Flatten, then Expand\<close>

lemma valid_fields_defined:
  assumes "validation_errors lib b = []"
  shows "get_path [''name''] b \<noteq> JUndefined"
    and "get_path [''address'', ''street''] b \<noteq> JUndefined"
    and "get_path [''address'', ''geo'', ''lat''] b \<noteq> JUndefined"
proof -
  have n: "trim (toString (get_path [''name''] b)) \<noteq> []"
    and s: "trim (toString (get_path [''address'', ''street''] b)) \<noteq> []"
    and l: "isFloat (toString (get_path [''address'', ''geo'', ''lat''] b))"
    using assms unfolding validation_errors_eq by (auto split: if_splits)
  show "get_path [''name''] b \<noteq> JUndefined"
    using n by (auto simp del: get_path.simps)
  show "get_path [''address'', ''street''] b \<noteq> JUndefined"
    using s by (auto simp del: get_path.simps)
  show "get_path [''address'', ''geo'', ''lat''] b \<noteq> JUndefined"
    using l by (auto simp del: get_path.simps)
qed

text \<open>
  Claim C2. For every payload \<open>x\<close> that passes validation, Flatten (the array
  \<open>params\<close>) succeeds, its nine values fill the nine columns of a row, and Expand of
  that row has under name, email, phone, company, address.street, address.city,
  address.zip, address.geo.lat and address.geo.lng the values \<open>x\<close> has there. The id
  and the two timestamps of the row are any.
\<close>

theorem C2_flatten_expand_round_trip:
  assumes "validation_errors lib x = []"
  shows "\<exists>ps r. flatten x = Inr ps \<and> bind_row i t ps = Some r
           \<and> map (\<lambda>p. get_path p (expand r))
                [[''name''], [''email''], [''phone''], [''company''],
                 [''address'', ''street''], [''address'', ''city''], [''address'', ''zip''],
                 [''address'', ''geo'', ''lat''], [''address'', ''geo'', ''lng'']]
             = map (\<lambda>p. get_path p x)
                [[''name''], [''email''], [''phone''], [''company''],
                 [''address'', ''street''], [''address'', ''city''], [''address'', ''zip''],
                 [''address'', ''geo'', ''lat''], [''address'', ''geo'', ''lng'']]"
proof -
  have fl: "flatten x = Inr (map (\<lambda>p. get_path p x) user_paths)"
    using valid_fields_defined[OF assms] by (rule flatten_paths)
  obtain r where r: "bind_row i t (map (\<lambda>p. get_path p x) user_paths) = Some r"
    unfolding user_paths_eq by (simp add: bind_row_def del: get_path.simps)
  then have "map (\<lambda>p. get_path p (expand r))
                [[''name''], [''email''], [''phone''], [''company''],
                 [''address'', ''street''], [''address'', ''city''], [''address'', ''zip''],
                 [''address'', ''geo'', ''lat''], [''address'', ''geo'', ''lng'']]
             = map (\<lambda>p. get_path p x)
                [[''name''], [''email''], [''phone''], [''company''],
                 [''address'', ''street''], [''address'', ''city''], [''address'', ''zip''],
                 [''address'', ''geo'', ''lat''], [''address'', ''geo'', ''lng'']]"
    unfolding user_paths_eq by (auto simp: bind_row_def expand_def)
  with fl r show ?thesis by blast
qed

theorem C2_flatten_expand_round_trip_witness:
  "validation_errors sample_lib (user_body ''Ann'' ''ann@example.com'') = []
   \<and> flatten (user_body ''Ann'' ''ann@example.com'')
       = Inr [JStr ''Ann'', JStr ''ann@example.com'', JStr ''555-0100'', JStr ''Acme'',
              JStr ''1 Main St'', JStr ''Oslo'', JStr ''0150'', JNum ''59.9'', JNum ''10.7'']
   \<and> (\<exists>r. bind_row 1 ''2024-01-01 10:00:00''
              [JStr ''Ann'', JStr ''ann@example.com'', JStr ''555-0100'', JStr ''Acme'',
               JStr ''1 Main St'', JStr ''Oslo'', JStr ''0150'', JNum ''59.9'', JNum ''10.7''] = Some r
          \<and> get_path [''address'', ''geo'', ''lat''] (expand r) = JNum ''59.9''
          \<and> get_path [''name''] (expand r) = JStr ''Ann'')"
proof -
  have v: "validation_errors sample_lib (user_body ''Ann'' ''ann@example.com'') = []"
    by code_simp
  have f: "flatten (user_body ''Ann'' ''ann@example.com'')
       = Inr [JStr ''Ann'', JStr ''ann@example.com'', JStr ''555-0100'', JStr ''Acme'',
              JStr ''1 Main St'', JStr ''Oslo'', JStr ''0150'', JNum ''59.9'', JNum ''10.7'']"
    by code_simp
  have g: "get_path [''address'', ''geo'', ''lat''] (user_body ''Ann'' ''ann@example.com'') = JNum ''59.9''"
    "get_path [''name''] (user_body ''Ann'' ''ann@example.com'') = JStr ''Ann''"
    by code_simp+
  from C2_flatten_expand_round_trip[OF v, of 1 "''2024-01-01 10:00:00''"]
  obtain ps r where *: "flatten (user_body ''Ann'' ''ann@example.com'') = Inr ps"
      "bind_row 1 ''2024-01-01 10:00:00'' ps = Some r"
      "map (\<lambda>p. get_path p (expand r))
                [[''name''], [''email''], [''phone''], [''company''],
                 [''address'', ''street''], [''address'', ''city''], [''address'', ''zip''],
                 [''address'', ''geo'', ''lat''], [''address'', ''geo'', ''lng'']]
             = map (\<lambda>p. get_path p (user_body ''Ann'' ''ann@example.com''))
                [[''name''], [''email''], [''phone''], [''company''],
                 [''address'', ''street''], [''address'', ''city''], [''address'', ''zip''],
                 [''address'', ''geo'', ''lat''], [''address'', ''geo'', ''lng'']]"
    by blast
  from *(1) f have ps: "ps = [JStr ''Ann'', JStr ''ann@example.com'', JStr ''555-0100'', JStr ''Acme'',
              JStr ''1 Main St'', JStr ''Oslo'', JStr ''0150'', JNum ''59.9'', JNum ''10.7'']"
    by simp
  from *(3) g have "get_path [''address'', ''geo'', ''lat''] (expand r) = JNum ''59.9''"
    "get_path [''name''] (expand r) = JStr ''Ann''"
    by (simp_all del: get_path.simps)
  with *(2) ps v f show ?thesis by blast
qed

section \<open>Update\<close>






section \<open>Get by id\<close>





section \<open>An id that is not a number\<close>






section \<open>Requests that fail validation, and fields beyond the nine\<close>

lemma create_user_invalid:
  assumes "validation_errors lib b \<noteq> []"
  shows "create_user e lib b st =
           (\<lparr>status = 400,
             json_body = [(''success'', Val (JBool False)),
                          (''message'', Val (JStr ''Validation failed'')),
                          (''errors'', Items (map error_entry (validation_errors lib b)))]\<rparr>, st)"
  using assms by (simp add: create_user_def handleValidationErrors_def)

lemma update_user_invalid:
  assumes "validation_errors lib b \<noteq> []"
  shows "update_user e lib i b st =
           (\<lparr>status = 400,
             json_body = [(''success'', Val (JBool False)),
                          (''message'', Val (JStr ''Validation failed'')),
                          (''errors'', Items (map error_entry (validation_errors lib b)))]\<rparr>, st)"
  using assms by (simp add: update_user_def handleValidationErrors_def)





section \<open>List\<close>


















section \<open>The envelope of every response\<close>

lemma failure_ok: "envelope_ok (failure c m)"
  by (auto simp: envelope_ok_def failure_def keys_of_def)

lemma failure_with_error_ok: "envelope_ok (failure_with_error m d)"
  by (auto simp: envelope_ok_def failure_with_error_def keys_of_def)

lemma error_middleware_ok: "envelope_ok (error_middleware mode m)"
  by (simp add: error_middleware_def failure_with_error_ok)

lemma get_users_callback_ok: "envelope_ok (get_users_callback r)"
  by (cases r) (simp_all add: get_users_callback_def failure_with_error_ok,
      auto simp: envelope_ok_def keys_of_def)

lemma get_user_callback_ok: "envelope_ok (get_user_callback r)"
proof (cases r)
  case (Inl m)
  then show ?thesis by (simp add: get_user_callback_def failure_with_error_ok)
next
  case (Inr found)
  then show ?thesis
    by (cases found)
      (simp_all add: get_user_callback_def failure_ok, auto simp: envelope_ok_def keys_of_def)
qed

lemma create_callback_ok: "envelope_ok (create_callback r)"
  by (cases r) (simp_all add: create_callback_def failure_ok failure_with_error_ok,
      auto simp: envelope_ok_def keys_of_def)

lemma update_callback_ok: "envelope_ok (update_callback r)"
  by (cases r) (simp_all add: update_callback_def failure_ok failure_with_error_ok,
      auto simp: envelope_ok_def keys_of_def)

lemma delete_callback_ok: "envelope_ok (delete_callback r)"
  by (cases r) (simp_all add: delete_callback_def failure_ok failure_with_error_ok,
      auto simp: envelope_ok_def keys_of_def)

lemma validation_response_ok:
  "handleValidationErrors errs = Some r \<Longrightarrow> envelope_ok r"
  by (auto simp: handleValidationErrors_def envelope_ok_def keys_of_def split: if_splits)

lemma create_user_ok: "envelope_ok (fst (create_user e lib b st))"
proof (cases "handleValidationErrors (validation_errors lib b)")
  case (Some r)
  then show ?thesis
    using validation_response_ok[OF Some] by (simp add: create_user_def)
next
  case None
  show ?thesis
  proof (cases "flatten (handler_body_of lib b)")
    case (Inl m)
    then show ?thesis
      using None by (simp add: create_user_def error_middleware_ok)
  next
    case (Inr params)
    obtain r st' where "run_insert (fault e) (current_timestamp e) params st = (r, st')"
      by (cases "run_insert (fault e) (current_timestamp e) params st")
    then show ?thesis
      using None Inr by (simp add: create_user_def create_callback_ok)
  qed
qed

lemma update_user_ok: "envelope_ok (fst (update_user e lib i b st))"
proof (cases "handleValidationErrors (validation_errors lib b)")
  case (Some r)
  then show ?thesis
    using validation_response_ok[OF Some] by (simp add: update_user_def)
next
  case None
  show ?thesis
  proof (cases "flatten (handler_body_of lib b)")
    case (Inl m)
    then show ?thesis
      using None by (simp add: update_user_def error_middleware_ok)
  next
    case (Inr params)
    obtain r st' where
      "run_update (fault e) (current_timestamp e) (params @ [JStr i]) st = (r, st')"
      by (cases "run_update (fault e) (current_timestamp e) (params @ [JStr i]) st")
    then show ?thesis
      using None Inr by (simp add: update_user_def update_callback_ok)
  qed
qed

lemma delete_user_ok: "envelope_ok (fst (delete_user e i st))"
proof -
  obtain r st' where "run_delete (fault e) [JStr i] st = (r, st')"
    by (cases "run_delete (fault e) [JStr i] st")
  then show ?thesis
    by (simp add: delete_user_def delete_callback_ok)
qed

lemma handle_ok: "req \<noteq> Health \<Longrightarrow> envelope_ok (fst (handle e lib req st))"
  by (cases req)
    (simp_all add: get_users_def get_user_def get_users_callback_ok get_user_callback_ok
      create_user_ok update_user_ok delete_user_ok route_not_found_def failure_ok
      error_middleware_ok)

text \<open>
  Claim C8, as amended. Whatever the request, the environment and the table, the response
  is an object with a boolean \<open>success\<close> and no key other than \<open>success\<close>,
  \<open>message\<close>, \<open>data\<close>, \<open>errors\<close>, \<open>error\<close> and \<open>timestamp\<close>;
  \<open>error\<close> comes with status 500 only and \<open>timestamp\<close> with the health check
  only. A response with \<open>success\<close> false has no \<open>data\<close>. A create or update
  request that fails validation is answered with the list of the failures under
  \<open>errors\<close>.
\<close>

theorem C8_envelope:
  "set (keys_of (fst (handle e lib req st)))
     \<subseteq> {''success'', ''message'', ''data'', ''errors'', ''error'', ''timestamp''}
   \<and> (\<exists>ok. map_of (json_body (fst (handle e lib req st))) ''success'' = Some (Val (JBool ok)))
   \<and> (map_of (json_body (fst (handle e lib req st))) ''success'' = Some (Val (JBool False))
        \<longrightarrow> ''data'' \<notin> set (keys_of (fst (handle e lib req st))))
   \<and> (''error'' \<in> set (keys_of (fst (handle e lib req st)))
        \<longrightarrow> status (fst (handle e lib req st)) = 500)
   \<and> (''timestamp'' \<in> set (keys_of (fst (handle e lib req st))) \<longrightarrow> req = Health)
   \<and> ((req = CreateUser b \<or> req = UpdateUser i b) \<and> validation_errors lib b \<noteq> []
        \<longrightarrow> fst (handle e lib req st) =
              \<lparr>status = 400,
               json_body = [(''success'', Val (JBool False)),
                            (''message'', Val (JStr ''Validation failed'')),
                            (''errors'', Items (map error_entry (validation_errors lib b)))]\<rparr>)"
proof (cases "req = Health")
  case True
  then show ?thesis
    by (auto simp: health_def keys_of_def)
next
  case False
  let ?r = "fst (handle e lib req st)"
  have ok: "envelope_ok ?r"
    using False by (rule handle_ok)
  have k: "set (keys_of ?r) \<subseteq> {''success'', ''message'', ''data'', ''errors'', ''error''}"
    and s: "\<exists>ok. map_of (json_body ?r) ''success'' = Some (Val (JBool ok))"
    and d: "map_of (json_body ?r) ''success'' = Some (Val (JBool False))
              \<longrightarrow> ''data'' \<notin> set (keys_of ?r)"
    and x: "''error'' \<in> set (keys_of ?r) \<longrightarrow> status ?r = 500"
    using ok unfolding envelope_ok_def by simp_all
  have k': "set (keys_of ?r)
      \<subseteq> {''success'', ''message'', ''data'', ''errors'', ''error'', ''timestamp''}"
    by (rule order_trans[OF k]) simp
  have t: "''timestamp'' \<in> set (keys_of ?r) \<longrightarrow> req = Health"
  proof
    assume "''timestamp'' \<in> set (keys_of ?r)"
    then have "''timestamp'' \<in> {''success'', ''message'', ''data'', ''errors'', ''error''}"
      by (rule subsetD[OF k])
    then show "req = Health"
      by simp
  qed
  have v: "(req = CreateUser b \<or> req = UpdateUser i b) \<and> validation_errors lib b \<noteq> []
        \<longrightarrow> ?r =
              \<lparr>status = 400,
               json_body = [(''success'', Val (JBool False)),
                            (''message'', Val (JStr ''Validation failed'')),
                            (''errors'', Items (map error_entry (validation_errors lib b)))]\<rparr>"
    by (auto simp: create_user_invalid update_user_invalid)
  show ?thesis
    using k' s d x t v by (intro conjI)
qed


theorem C8_envelope_witness:
  "validation_errors sample_lib (JObj []) \<noteq> []
   \<and> keys_of (fst (handle (at_time ''2024-01-01 10:00:00'') sample_lib (CreateUser (JObj []))
         empty_db)) = [''success'', ''message'', ''errors'']
   \<and> map_of (json_body (fst (handle (at_time ''2024-01-01 10:00:00'') sample_lib
         (CreateUser (JObj [])) empty_db))) ''success'' = Some (Val (JBool False))
   \<and> ''data'' \<notin> set (keys_of (fst (handle (at_time ''2024-01-01 10:00:00'') sample_lib
         (CreateUser (JObj [])) empty_db)))
   \<and> ''error'' \<in> set (keys_of (fst (handle
         ((at_time ''2024-01-01 10:00:00'')\<lparr>fault := Some ''SQLITE_BUSY: database is locked''\<rparr>)
         sample_lib ListUsers empty_db)))
   \<and> status (fst (handle
         ((at_time ''2024-01-01 10:00:00'')\<lparr>fault := Some ''SQLITE_BUSY: database is locked''\<rparr>)
         sample_lib ListUsers empty_db)) = 500"
proof -
  let ?e = "at_time ''2024-01-01 10:00:00''"
  let ?f = "(at_time ''2024-01-01 10:00:00'')\<lparr>fault := Some ''SQLITE_BUSY: database is locked''\<rparr>"
  let ?r = "fst (handle ?e sample_lib (CreateUser (JObj [])) empty_db)"
  let ?q = "fst (handle ?f sample_lib ListUsers empty_db)"
  have v: "validation_errors sample_lib (JObj []) \<noteq> []"
    by code_simp
  note create = C8_envelope[of ?e sample_lib "CreateUser (JObj [])" empty_db "JObj []" "''1''"]
  note list = C8_envelope[of ?f sample_lib ListUsers empty_db "JObj []" "''1''"]
  have shape: "?r =
      \<lparr>status = 400,
       json_body = [(''success'', Val (JBool False)),
                    (''message'', Val (JStr ''Validation failed'')),
                    (''errors'', Items (map error_entry (validation_errors sample_lib (JObj []))))]\<rparr>"
    using create v by blast
  have k: "keys_of ?r = [''success'', ''message'', ''errors'']"
    unfolding shape by (simp add: keys_of_def)
  have s: "map_of (json_body ?r) ''success'' = Some (Val (JBool False))"
    unfolding shape by simp
  have d: "''data'' \<notin> set (keys_of ?r)"
    using create s by blast
  have x: "''error'' \<in> set (keys_of ?q)"
    by code_simp
  have c: "status ?q = 500"
    using list x by blast
  show ?thesis
    using v k s d x c by (intro conjI)
qed

text \<open>
  Claim C8 as stated fails: the response to a list request that meets a storage failure
  has the key \<open>error\<close>, and the response of the health check has the key
  \<open>timestamp\<close>; neither is among \<open>success\<close>, \<open>message\<close>, \<open>data\<close>
  and \<open>errors\<close>.
\<close>

theorem C8_extra_fields_counterexample:
  "keys_of (fst (handle
       ((at_time ''2024-01-01 10:00:00'')\<lparr>fault := Some ''SQLITE_BUSY: database is locked''\<rparr>)
       sample_lib ListUsers empty_db)) = [''success'', ''message'', ''error'']
   \<and> ''error'' \<notin> set [''success'', ''message'', ''data'', ''errors'']
   \<and> keys_of (fst (handle (at_time ''2024-01-01 10:00:00'') sample_lib Health empty_db))
       = [''success'', ''message'', ''timestamp'']
   \<and> ''timestamp'' \<notin> set [''success'', ''message'', ''data'', ''errors'']"
  by code_simp

section \<open>Failure detail and the operating mode\<close>

text \<open>
  A storage failure met by the list, get-by-id or delete handler is answered with the
  engine's message under \<open>error\<close>, and the operating mode is not looked at. The
  error-handling middleware does look at it: the message of the error is sent in
  development mode only.
\<close>

lemma storage_fault_detail:
  assumes "fault e = Some m"
  shows "get_users e st = failure_with_error ''Failed to fetch users'' m"
    and "get_user e i st = failure_with_error ''Failed to fetch user'' m"
    and "delete_user e i st = (failure_with_error ''Failed to delete user'' m, st)"
  using assms
  by (simp_all add: get_users_def select_all_def get_users_callback_def get_user_def
      select_by_id_def get_user_callback_def delete_user_def run_delete_def delete_callback_def)

lemma error_middleware_detail:
  "error_middleware mode m =
     \<lparr>status = 500,
      json_body = [(''success'', Val (JBool False)),
                   (''message'', Val (JStr ''Internal server error'')),
                   (''error'',
                    Val (JStr (if mode = Some ''development'' then m
                               else ''Something went wrong'')))]\<rparr>"
  by (simp add: error_middleware_def failure_with_error_def)

text \<open>
  Claim C4 says that the raw failure detail is left out of a 500 response outside
  development mode. The handlers do not do so: in production mode, a list request that
  meets the storage failure "SQLITE_BUSY: database is locked" is answered with status
  500 and that very message under \<open>error\<close>.
\<close>

theorem C4_storage_error_detail_in_production:
  "node_env ((at_time ''2024-01-01 10:00:00'')\<lparr>fault := Some ''SQLITE_BUSY: database is locked''\<rparr>)
     = Some ''production''
   \<and> get_users
        ((at_time ''2024-01-01 10:00:00'')\<lparr>fault := Some ''SQLITE_BUSY: database is locked''\<rparr>)
        empty_db
     = \<lparr>status = 500,
        json_body = [(''success'', Val (JBool False)),
                     (''message'', Val (JStr ''Failed to fetch users'')),
                     (''error'', Val (JStr ''SQLITE_BUSY: database is locked''))]\<rparr>"
  by (simp add: at_time_def get_users_def select_all_def get_users_callback_def
      failure_with_error_def)

end
